theory Spec2Isabelle
  imports Main "HOL-Library.Sublist"
begin

section \<open>The credential bootstrap script \<open>tools/get-pm-apikey.py\<close>\<close>

text \<open>
  The script is one straight-line module: it reads two environment variables, checks
  them, constructs a \<open>ClobClient\<close>, calls three of its methods and prints. Everything
  it touches outside itself is a parameter of the model (the record \<open>world\<close>): the
  process environment as \<open>load_dotenv()\<close> leaves it, and the behaviour of the
  \<open>py_clob_client\<close> library, given as a scripted stub whose calls return a value or
  raise. What the script does is recorded as a trace of events (client construction,
  client method calls, \<open>print\<close> calls) together with the way the process ends.

  Python strings are modelled as byte strings in UTF-8, so the Chinese text and the
  emoji of the messages appear as their bytes. \<open>print\<close> is taken to succeed always.
\<close>

subsection \<open>Data\<close>

text \<open>
  A raised Python exception: the name of its class, what \<open>str(e)\<close> gives, and
  whether it is an instance of \<open>Exception\<close> (\<open>KeyboardInterrupt\<close> and
  \<open>SystemExit\<close> are not), which is what \<open>except Exception\<close> tests.
\<close>

datatype py_exception =
  PyException (exc_type: string) (exc_str: string) (isinstance_Exception: bool)

definition ValueError :: "string \<Rightarrow> py_exception" where
  "ValueError msg = PyException ''ValueError'' msg True"

text \<open>The object returned by \<open>create_or_derive_api_creds\<close>: three string fields.\<close>

record api_creds =
  api_key :: string
  api_secret :: string
  api_passphrase :: string

text \<open>
  The keyword arguments of the \<open>ClobClient(...)\<close> call. \<open>key\<close> and \<open>funder\<close> receive
  what \<open>os.getenv\<close> returned, a string or \<open>None\<close>.
\<close>

record client_args =
  host :: string
  chain_id :: int
  key :: "string option"
  signature_type :: int
  funder :: "string option"

text \<open>
  The outside of the script. \<open>environ\<close> is the process environment after
  \<open>load_dotenv()\<close>. The other fields script the library: the constructor and
  \<open>set_api_creds\<close> return nothing or raise (\<open>Some e\<close>), the two remote calls return a
  value (\<open>Inr\<close>) or raise (\<open>Inl\<close>). \<open>get_api_keys\<close> returns the list of keys.
\<close>

record world =
  environ :: "string \<rightharpoonup> string"
  ClobClient_init :: "client_args \<Rightarrow> py_exception option"
  create_or_derive_api_creds :: "client_args \<Rightarrow> py_exception + api_creds"
  set_api_creds :: "client_args \<Rightarrow> api_creds \<Rightarrow> py_exception option"
  get_api_keys :: "client_args \<Rightarrow> api_creds \<Rightarrow> py_exception + string list"

datatype event =
  EvClobClient client_args
  | EvCreateOrDerive
  | EvSetApiCreds api_creds
  | EvGetApiKeys
  | EvPrint string

text \<open>
  How the process ends: it runs off the end of the module, or an exception reaches the
  top level.
\<close>

datatype outcome = ExitOk | Uncaught py_exception

text \<open>
  The exit status of the process: 0 when the module runs to its end; 1, after the
  traceback, when an instance of \<open>Exception\<close> reaches the top level. An exception
  outside \<open>Exception\<close> ends the process in a way the three fields of \<open>py_exception\<close>
  do not determine (\<open>SystemExit\<close> exits with the code it carries, \<open>KeyboardInterrupt\<close>
  ends the process by the interrupt signal): for it no status is given.
\<close>

fun exit_status :: "outcome \<Rightarrow> nat option" where
  "exit_status ExitOk = Some 0"
| "exit_status (Uncaught e) = (if isinstance_Exception e then Some 1 else None)"

record run =
  trace :: "event list"
  outcome :: outcome

subsection \<open>Python primitives the script uses\<close>

definition getenv :: "world \<Rightarrow> string \<Rightarrow> string option" where
  "getenv w name = environ w name"

text \<open>\<open>not x\<close> for \<open>x\<close> a string or \<open>None\<close>: true for \<open>None\<close> and for the empty string.\<close>

fun py_not :: "string option \<Rightarrow> bool" where
  "py_not None = True"
| "py_not (Some s) = (s = [])"

text \<open>\<open>str(n)\<close> for a non-negative integer, as the f-string renders \<open>len(keys)\<close>.\<close>

definition digit_char :: "nat \<Rightarrow> char" where
  "digit_char d = char_of (48 + d)"

fun str_nat :: "nat \<Rightarrow> string" where
  "str_nat n = (if n < 10 then [digit_char n] else str_nat (n div 10) @ [digit_char (n mod 10)])"

declare str_nat.simps [simp del]

subsection \<open>The literals of the script\<close>

definition config_message :: string where
  "config_message =
     [CHR 0xE8, CHR 0xAF, CHR 0xB7, CHR 0xE5, CHR 0x9C, CHR 0xA8] @ '' .env '' @
     [CHR 0xE4, CHR 0xB8, CHR 0xAD, CHR 0xE9, CHR 0x85, CHR 0x8D, CHR 0xE7, CHR 0xBD, CHR 0xAE] @
     '' POLYMARKET_TRADER_PRIVATE_KEY '' @ [CHR 0xE5, CHR 0x92, CHR 0x8C] @
     '' POLYMARKET_TRADER_ADDRESS''"

definition msg_generating :: string where
  "msg_generating =
     [CHR 0xE6, CHR 0xAD, CHR 0xA3, CHR 0xE5, CHR 0x9C, CHR 0xA8, CHR 0xE7, CHR 0x94, CHR 0x9F,
      CHR 0xE6, CHR 0x88, CHR 0x90] @ '' API '' @
     [CHR 0xE5, CHR 0x87, CHR 0xAD, CHR 0xE8, CHR 0xAF, CHR 0x81] @ ''...''"

definition rule50 :: string where
  "rule50 = replicate 50 CHR ''=''"

definition msg_created :: string where
  "msg_created =
     [CHR 0xE2, CHR 0x9C, CHR 0x85] @ '' API '' @
     [CHR 0xE5, CHR 0x87, CHR 0xAD, CHR 0xE8, CHR 0xAF, CHR 0x81, CHR 0xE7, CHR 0x94, CHR 0x9F,
      CHR 0xE6, CHR 0x88, CHR 0x90, CHR 0xE6, CHR 0x88, CHR 0x90, CHR 0xE5, CHR 0x8A, CHR 0x9F,
      CHR 0xEF, CHR 0xBC, CHR 0x81, CHR 0xE8, CHR 0xAF, CHR 0xB7, CHR 0xE5, CHR 0xA6, CHR 0xA5,
      CHR 0xE5, CHR 0x96, CHR 0x84, CHR 0xE4, CHR 0xBF, CHR 0x9D, CHR 0xE5, CHR 0xAD, CHR 0x98,
      CHR 0xE4, CHR 0xBB, CHR 0xA5, CHR 0xE4, CHR 0xB8, CHR 0x8B, CHR 0xE4, CHR 0xBF, CHR 0xA1,
      CHR 0xE6, CHR 0x81, CHR 0xAF, CHR 0xEF, CHR 0xBC, CHR 0x9A]"

definition key_line :: "api_creds \<Rightarrow> string" where
  "key_line c = ''API_KEY      = '' @ api_key c"

definition secret_line :: "api_creds \<Rightarrow> string" where
  "secret_line c = ''API_SECRET   = '' @ api_secret c"

definition passphrase_line :: "api_creds \<Rightarrow> string" where
  "passphrase_line c = ''API_PASSPHRASE = '' @ api_passphrase c"

definition msg_verifying :: string where
  "msg_verifying =
     [CHR 0x0A, CHR 0xE6, CHR 0xAD, CHR 0xA3, CHR 0xE5, CHR 0x9C, CHR 0xA8, CHR 0xE9, CHR 0xAA,
      CHR 0x8C, CHR 0xE8, CHR 0xAF, CHR 0x81, CHR 0xE5, CHR 0x87, CHR 0xAD, CHR 0xE8, CHR 0xAF,
      CHR 0x81] @ ''...''"

definition verified_prefix :: string where
  "verified_prefix =
     [CHR 0xE2, CHR 0x9C, CHR 0x85] @ '' '' @
     [CHR 0xE9, CHR 0xAA, CHR 0x8C, CHR 0xE8, CHR 0xAF, CHR 0x81, CHR 0xE6, CHR 0x88, CHR 0x90,
      CHR 0xE5, CHR 0x8A, CHR 0x9F, CHR 0xEF, CHR 0xBC, CHR 0x81, CHR 0xE5, CHR 0xBD, CHR 0x93,
      CHR 0xE5, CHR 0x89, CHR 0x8D, CHR 0xE8, CHR 0xB4, CHR 0xA6, CHR 0xE6, CHR 0x88, CHR 0xB7,
      CHR 0xE5, CHR 0x85, CHR 0xB1, CHR 0xE6, CHR 0x9C, CHR 0x89] @ '' ''"

definition verified_suffix :: string where
  "verified_suffix = '' '' @ [CHR 0xE4, CHR 0xB8, CHR 0xAA] @ '' API Key''"

definition verified_line :: "nat \<Rightarrow> string" where
  "verified_line n = verified_prefix @ str_nat n @ verified_suffix"

definition warning_prefix :: string where
  "warning_prefix =
     [CHR 0xE2, CHR 0x9A, CHR 0xA0, CHR 0xEF, CHR 0xB8, CHR 0x8F] @ '' '' @
     [CHR 0xE9, CHR 0xAA, CHR 0x8C, CHR 0xE8, CHR 0xAF, CHR 0x81, CHR 0xE5, CHR 0xA4, CHR 0xB1,
      CHR 0xE8, CHR 0xB4, CHR 0xA5] @ '': ''"

definition warning_line :: "py_exception \<Rightarrow> string" where
  "warning_line e = warning_prefix @ exc_str e"

subsection \<open>The script, section by section\<close>

text \<open>
  Lines 39 to 47: \<open>set_api_creds\<close> is called outside the \<open>try\<close>; \<open>get_api_keys\<close> and
  the success message are inside it, and the handler catches instances of
  \<open>Exception\<close> only.
\<close>

definition verify_section :: "world \<Rightarrow> client_args \<Rightarrow> api_creds \<Rightarrow> event list \<Rightarrow> run" where
  "verify_section w client creds t0 =
     (let t1 = t0 @ [EvSetApiCreds creds] in
      case set_api_creds w client creds of
        Some e \<Rightarrow> \<lparr>trace = t1, outcome = Uncaught e\<rparr>
      | None \<Rightarrow>
         (let t2 = t1 @ [EvPrint msg_verifying, EvGetApiKeys] in
          case get_api_keys w client creds of
            Inr keys \<Rightarrow>
              \<lparr>trace = t2 @ [EvPrint (verified_line (length keys))], outcome = ExitOk\<rparr>
          | Inl e \<Rightarrow>
              if isinstance_Exception e
              then \<lparr>trace = t2 @ [EvPrint (warning_line e)], outcome = ExitOk\<rparr>
              else \<lparr>trace = t2, outcome = Uncaught e\<rparr>))"

text \<open>Lines 30 to 36: the seven \<open>print\<close> calls that report the credentials.\<close>

definition output_section :: "api_creds \<Rightarrow> event list" where
  "output_section creds =
     [EvPrint (CHR 0x0A # rule50),
      EvPrint msg_created,
      EvPrint rule50,
      EvPrint (key_line creds),
      EvPrint (secret_line creds),
      EvPrint (passphrase_line creds),
      EvPrint rule50]"

text \<open>Lines 26 and 27: the banner, then the remote call, not guarded by any \<open>try\<close>.\<close>

definition create_section :: "world \<Rightarrow> client_args \<Rightarrow> event list \<Rightarrow> run" where
  "create_section w client t0 =
     (let t1 = t0 @ [EvPrint msg_generating, EvCreateOrDerive] in
      case create_or_derive_api_creds w client of
        Inl e \<Rightarrow> \<lparr>trace = t1, outcome = Uncaught e\<rparr>
      | Inr creds \<Rightarrow> verify_section w client creds (t1 @ output_section creds))"

text \<open>Lines 17 to 23: the constructor call with its five keyword arguments.\<close>

definition ClobClient_kwargs :: "string option \<Rightarrow> string option \<Rightarrow> client_args" where
  "ClobClient_kwargs PRIVATE_KEY WALLET_ADDRESS =
     \<lparr>host = ''https://clob.polymarket.com'', chain_id = 137,
      key = PRIVATE_KEY, signature_type = 0, funder = WALLET_ADDRESS\<rparr>"

text \<open>
  Modelled from the spec: the constructor of \<open>ClobClient\<close>, which is code of the library
  \<open>py_clob_client\<close> and not of this repository. The specification says of the call
  that it "binds endpoint, chain id, signing key, signature-scheme selector, and funding
  address into a client handle", that it "must not itself perform network I/O
  (construction is local)" and that "failures here are local programming/config errors".
  So the call adds one event, the construction with its arguments, and no client call;
  it returns, or raises what the world says.
\<close>

definition ClobClient :: "world \<Rightarrow> client_args \<Rightarrow> event list \<times> py_exception option" where
  "ClobClient w kwargs = ([EvClobClient kwargs], ClobClient_init w kwargs)"

definition client_section :: "world \<Rightarrow> string option \<Rightarrow> string option \<Rightarrow> run" where
  "client_section w PRIVATE_KEY WALLET_ADDRESS =
     (let kwargs = ClobClient_kwargs PRIVATE_KEY WALLET_ADDRESS in
      case ClobClient w kwargs of
        (t, Some e) \<Rightarrow> \<lparr>trace = t, outcome = Uncaught e\<rparr>
      | (t, None) \<Rightarrow> create_section w kwargs t)"

text \<open>Lines 10 to 14, then the rest of the module.\<close>

definition script :: "world \<Rightarrow> run" where
  "script w =
     (let PRIVATE_KEY = getenv w ''POLYMARKET_TRADER_PRIVATE_KEY'';
          WALLET_ADDRESS = getenv w ''POLYMARKET_TRADER_ADDRESS'' in
      if py_not PRIVATE_KEY \<or> py_not WALLET_ADDRESS
      then \<lparr>trace = [], outcome = Uncaught (ValueError config_message)\<rparr>
      else client_section w PRIVATE_KEY WALLET_ADDRESS)"

subsection \<open>Observations on a run\<close>

text \<open>The arguments of the \<open>print\<close> calls, in order.\<close>

fun printed :: "event list \<Rightarrow> string list" where
  "printed [] = []"
| "printed (EvPrint s # t) = s # printed t"
| "printed (_ # t) = printed t"

text \<open>Standard output: \<open>print\<close> writes its argument and a newline.\<close>

definition stdout_text :: "event list \<Rightarrow> string" where
  "stdout_text t = concat (map (\<lambda>s. s @ [CHR 0x0A]) (printed t))"

text \<open>The calls of client methods, the ones that can reach the remote API.\<close>

fun is_client_call :: "event \<Rightarrow> bool" where
  "is_client_call EvCreateOrDerive = True"
| "is_client_call (EvSetApiCreds _) = True"
| "is_client_call EvGetApiKeys = True"
| "is_client_call _ = False"

fun is_construction :: "event \<Rightarrow> bool" where
  "is_construction (EvClobClient _) = True"
| "is_construction _ = False"

text \<open>
  Reading the output: the lines of the text written to standard output, split at the
  newline byte as \<open>str.splitlines\<close> does.
\<close>

fun split_lines :: "string \<Rightarrow> string \<Rightarrow> string list" where
  "split_lines cur [] = (if cur = [] then [] else [cur])"
| "split_lines cur (c # cs) =
     (if c = CHR 0x0A then cur # split_lines [] cs else split_lines (cur @ [c]) cs)"

definition stdout_lines :: "event list \<Rightarrow> string list" where
  "stdout_lines t = split_lines [] (stdout_text t)"

text \<open>
  Reading a printed count back. A digit is a byte from \<open>0x30\<close> to \<open>0x39\<close>. A string
  has a decimal value only if it is not empty and all its bytes are digits; it is
  the decimal numeral of a number, as \<open>str\<close> writes it, if moreover it has no leading
  zero (the single digit \<open>0\<close> apart).
\<close>

definition is_digit :: "char \<Rightarrow> bool" where
  "is_digit c = (48 \<le> (of_char c :: nat) \<and> (of_char c :: nat) \<le> 57)"

fun decimal_from :: "nat \<Rightarrow> string \<Rightarrow> nat option" where
  "decimal_from acc [] = Some acc"
| "decimal_from acc (c # cs) =
     (if is_digit c then decimal_from (10 * acc + (of_char c - 48)) cs else None)"

definition decimal_value :: "string \<Rightarrow> nat option" where
  "decimal_value s = (if s = [] then None else decimal_from 0 s)"

definition is_decimal_numeral :: "string \<Rightarrow> bool" where
  "is_decimal_numeral s =
     (s \<noteq> [] \<and> list_all is_digit s \<and> (length s = 1 \<or> hd s \<noteq> CHR ''0''))"

text \<open>
  The lines that report a credential field all begin with \<open>API_\<close>; the warning of the
  \<open>except\<close> branch begins with the warning sign and the words for "verification failed".
\<close>

definition is_credential_line :: "string \<Rightarrow> bool" where
  "is_credential_line s = prefix ''API_'' s"

definition is_warning_line :: "string \<Rightarrow> bool" where
  "is_warning_line s = prefix warning_prefix s"

text \<open>
  The two variables the script requires, those of them a given environment lacks (absent
  or empty), and those a message mentions by name.
\<close>

definition required_vars :: "string list" where
  "required_vars = [''POLYMARKET_TRADER_PRIVATE_KEY'', ''POLYMARKET_TRADER_ADDRESS'']"

definition missing_vars :: "world \<Rightarrow> string list" where
  "missing_vars w = filter (\<lambda>v. py_not (getenv w v)) required_vars"

definition named_vars :: "string \<Rightarrow> string list" where
  "named_vars msg = filter (\<lambda>v. sublist v msg) required_vars"

subsection \<open>A scripted stub of the library, for concrete runs\<close>

text \<open>
  A world whose constructor succeeds and whose three client methods give fixed answers,
  whatever their arguments.
\<close>

definition stub_world ::
  "(string \<rightharpoonup> string) \<Rightarrow> (py_exception + api_creds) \<Rightarrow> py_exception option \<Rightarrow>
   (py_exception + string list) \<Rightarrow> world" where
  "stub_world env created bound listed =
     \<lparr>environ = env,
      ClobClient_init = (\<lambda>_. None),
      create_or_derive_api_creds = (\<lambda>_. created),
      set_api_creds = (\<lambda>_ _. bound),
      get_api_keys = (\<lambda>_ _. listed)\<rparr>"

definition example_env :: "string \<rightharpoonup> string" where
  "example_env = [''POLYMARKET_TRADER_PRIVATE_KEY'' \<mapsto> ''0xabc'',
                  ''POLYMARKET_TRADER_ADDRESS'' \<mapsto> ''0xdef'']"

definition example_creds :: api_creds where
  "example_creds = \<lparr>api_key = ''K1'', api_secret = ''S1'', api_passphrase = ''P1''\<rparr>"

definition example_error :: py_exception where
  "example_error = PyException ''PolyApiException'' ''status_code=401'' True"

text \<open>
  Concrete inputs: an exception that is not an instance of \<open>Exception\<close>, an
  environment that lacks the wallet address, one whose two values are whitespace only,
  a world with that environment whose constructor refuses the key, and the lines of
  standard output in the end-to-end scenario of the specification.
\<close>

definition keyboard_interrupt :: py_exception where
  "keyboard_interrupt = PyException ''KeyboardInterrupt'' [] False"

definition address_missing_world :: world where
  "address_missing_world =
     stub_world [''POLYMARKET_TRADER_PRIVATE_KEY'' \<mapsto> ''0xabc''] (Inr example_creds) None (Inr [])"

definition whitespace_env :: "string \<rightharpoonup> string" where
  "whitespace_env = [''POLYMARKET_TRADER_PRIVATE_KEY'' \<mapsto> ''   '',
                     ''POLYMARKET_TRADER_ADDRESS'' \<mapsto> '' '']"

definition invalid_key_error :: py_exception where
  "invalid_key_error = PyException ''ValueError'' ''invalid private key'' True"

definition whitespace_refused_world :: world where
  "whitespace_refused_world =
     (stub_world whitespace_env (Inr example_creds) None (Inr []))
       \<lparr>ClobClient_init := (\<lambda>_. Some invalid_key_error)\<rparr>"

definition end_to_end_lines :: "string list" where
  "end_to_end_lines =
     [msg_generating, [], rule50, msg_created, rule50,
      ''API_KEY      = K1'', ''API_SECRET   = S1'', ''API_PASSPHRASE = P1'', rule50,
      [], drop 1 msg_verifying, verified_prefix @ ''2'' @ verified_suffix]"

section \<open>Properties\<close>

subsection \<open>The paths through the script\<close>

lemma printed_append: "printed (xs @ ys) = printed xs @ printed ys"
  by (induction xs rule: printed.induct) simp_all

lemma script_missing:
  assumes "py_not (environ w ''POLYMARKET_TRADER_PRIVATE_KEY'') \<or> py_not (environ w ''POLYMARKET_TRADER_ADDRESS'')"
  shows "script w = \<lparr>trace = [], outcome = Uncaught (ValueError config_message)\<rparr>"
  using assms by (simp add: script_def getenv_def)

lemma script_valid:
  assumes "environ w ''POLYMARKET_TRADER_PRIVATE_KEY'' = Some pk" "pk \<noteq> []"
    and "environ w ''POLYMARKET_TRADER_ADDRESS'' = Some addr" "addr \<noteq> []"
  shows "script w = client_section w (Some pk) (Some addr)"
  using assms by (simp add: script_def getenv_def)

lemma client_section_raises:
  assumes "ClobClient_init w (ClobClient_kwargs k a) = Some e"
  shows "client_section w k a = \<lparr>trace = [EvClobClient (ClobClient_kwargs k a)], outcome = Uncaught e\<rparr>"
  using assms by (simp add: client_section_def ClobClient_def)

lemma client_section_returns:
  assumes "ClobClient_init w (ClobClient_kwargs k a) = None"
  shows "client_section w k a =
    create_section w (ClobClient_kwargs k a) [EvClobClient (ClobClient_kwargs k a)]"
  using assms by (simp add: client_section_def ClobClient_def Let_def)

lemma create_section_raises:
  assumes "create_or_derive_api_creds w cl = Inl e"
  shows "create_section w cl t0 =
    \<lparr>trace = t0 @ [EvPrint msg_generating, EvCreateOrDerive], outcome = Uncaught e\<rparr>"
  using assms by (simp add: create_section_def)

lemma create_section_returns:
  assumes "create_or_derive_api_creds w cl = Inr c"
  shows "create_section w cl t0 =
    verify_section w cl c (t0 @ [EvPrint msg_generating, EvCreateOrDerive] @ output_section c)"
  using assms by (simp add: create_section_def)


lemma verify_section_keys:
  assumes "set_api_creds w cl c = None" "get_api_keys w cl c = Inr ks"
  shows "verify_section w cl c t0 =
    \<lparr>trace = t0 @ [EvSetApiCreds c, EvPrint msg_verifying, EvGetApiKeys,
                    EvPrint (verified_line (length ks))], outcome = ExitOk\<rparr>"
  using assms by (simp add: verify_section_def)

lemma verify_section_caught:
  assumes "set_api_creds w cl c = None" "get_api_keys w cl c = Inl e" "isinstance_Exception e"
  shows "verify_section w cl c t0 =
    \<lparr>trace = t0 @ [EvSetApiCreds c, EvPrint msg_verifying, EvGetApiKeys,
                    EvPrint (warning_line e)], outcome = ExitOk\<rparr>"
  using assms by (simp add: verify_section_def)

lemma verify_section_not_caught:
  assumes "set_api_creds w cl c = None" "get_api_keys w cl c = Inl e" "\<not> isinstance_Exception e"
  shows "verify_section w cl c t0 =
    \<lparr>trace = t0 @ [EvSetApiCreds c, EvPrint msg_verifying, EvGetApiKeys],
     outcome = Uncaught e\<rparr>"
  using assms by (simp add: verify_section_def)

text \<open>
  The handler is \<open>except Exception\<close>: an exception outside that class, such as the
  \<open>KeyboardInterrupt\<close> of an operator who interrupts the call, is not an error of the
  call and passes through the handler.
\<close>

lemma keyboard_interrupt_not_caught:
  assumes "set_api_creds w cl c = None" "get_api_keys w cl c = Inl keyboard_interrupt"
  shows "outcome (verify_section w cl c t0) = Uncaught keyboard_interrupt"
proof -
  have "\<not> isinstance_Exception keyboard_interrupt"
    by (simp add: keyboard_interrupt_def)
  then show ?thesis
    by (simp add: verify_section_not_caught [OF assms])
qed

lemma rule50_Cons: "rule50 = CHR ''='' # replicate 49 CHR ''=''"
proof -
  have "(50::nat) = Suc 49" by simp
  then show ?thesis unfolding rule50_def by (simp only: replicate_Suc)
qed

lemma printed_output_section:
  "printed (output_section c) =
     [CHR 0x0A # rule50, msg_created, rule50, key_line c, secret_line c, passphrase_line c, rule50]"
  by (simp add: output_section_def)

lemma credential_lines_output_section:
  "filter is_credential_line (printed (output_section c)) =
     [key_line c, secret_line c, passphrase_line c]"
  by (simp add: printed_output_section is_credential_line_def rule50_Cons msg_created_def
      key_line_def secret_line_def passphrase_line_def)

lemma not_credential_line [simp]:
  "\<not> is_credential_line msg_generating" "\<not> is_credential_line msg_verifying"
  "\<not> is_credential_line (verified_line n)" "\<not> is_credential_line (warning_line e)"
  by (simp_all add: is_credential_line_def msg_generating_def msg_verifying_def
      verified_line_def verified_prefix_def warning_line_def warning_prefix_def)

lemma not_warning_line [simp]:
  "\<not> is_warning_line msg_generating" "\<not> is_warning_line msg_verifying"
  "\<not> is_warning_line (verified_line n)" "\<not> is_warning_line (CHR 0x0A # rule50)"
  "\<not> is_warning_line rule50" "\<not> is_warning_line msg_created"
  "\<not> is_warning_line (key_line c)" "\<not> is_warning_line (secret_line c)"
  "\<not> is_warning_line (passphrase_line c)"
  by (simp_all add: is_warning_line_def msg_generating_def msg_verifying_def
      verified_line_def verified_prefix_def warning_prefix_def rule50_Cons msg_created_def
      key_line_def secret_line_def passphrase_line_def)

lemma is_warning_line_warning [simp]: "is_warning_line (warning_line e)"
  by (simp add: is_warning_line_def warning_line_def)

lemma of_char_digit: "d < 10 \<Longrightarrow> of_char (digit_char d) = 48 + d"
  by (simp add: digit_char_def)

lemma is_digit_digit_char: "d < 10 \<Longrightarrow> is_digit (digit_char d)"
  by (simp add: is_digit_def of_char_digit)

lemma str_nat_not_Nil: "str_nat n \<noteq> []"
  by (subst str_nat.simps) simp

lemma decimal_from_snoc:
  "decimal_from acc (s @ [c]) =
     (case decimal_from acc s of
        None \<Rightarrow> None
      | Some v \<Rightarrow> if is_digit c then Some (10 * v + (of_char c - 48)) else None)"
  by (induction s arbitrary: acc) simp_all

lemma decimal_from_str_nat: "decimal_from 0 (str_nat n) = Some n"
proof (induction n rule: str_nat.induct)
  case (1 n)
  show ?case
  proof (cases "n < 10")
    case True
    then show ?thesis
      by (subst str_nat.simps) (simp add: is_digit_digit_char of_char_digit)
  next
    case False
    with 1 have "decimal_from 0 (str_nat (n div 10)) = Some (n div 10)" by simp
    with False show ?thesis
      by (subst str_nat.simps)
        (simp add: decimal_from_snoc is_digit_digit_char of_char_digit)
  qed
qed

lemma decimal_value_str_nat: "decimal_value (str_nat n) = Some n"
  by (simp add: decimal_value_def str_nat_not_Nil decimal_from_str_nat)

lemma digits_str_nat: "list_all is_digit (str_nat n)"
proof (induction n rule: str_nat.induct)
  case (1 n)
  show ?case
  proof (cases "n < 10")
    case True
    then show ?thesis
      by (subst str_nat.simps) (simp add: is_digit_digit_char)
  next
    case False
    with 1 have "list_all is_digit (str_nat (n div 10))" by simp
    with False show ?thesis
      by (subst str_nat.simps) (simp add: is_digit_digit_char)
  qed
qed

lemma digit_char_eq_zero: "d < 10 \<Longrightarrow> digit_char d = CHR ''0'' \<Longrightarrow> d = 0"
proof -
  assume d: "d < 10" and z: "digit_char d = CHR ''0''"
  have "(of_char (digit_char d) :: nat) = 48 + d" using d by (rule of_char_digit)
  with z show "d = 0" by simp
qed

lemma no_leading_zero_str_nat: "length (str_nat n) = 1 \<or> hd (str_nat n) \<noteq> CHR ''0''"
proof (induction n rule: str_nat.induct)
  case (1 n)
  show ?case
  proof (cases "n < 10")
    case True
    then show ?thesis
      by (subst (1 2) str_nat.simps) simp
  next
    case False
    then have pos: "0 < n div 10" by simp
    have ih: "length (str_nat (n div 10)) = 1 \<or> hd (str_nat (n div 10)) \<noteq> CHR ''0''"
      using 1 False by simp
    have hd0: "hd (str_nat (n div 10)) \<noteq> CHR ''0''"
    proof (cases "n div 10 < 10")
      case True
      have "str_nat (n div 10) = [digit_char (n div 10)]"
        using True by (subst str_nat.simps) simp
      then show ?thesis
        using digit_char_eq_zero [OF True] pos by auto
    next
      case False
      then have "length (str_nat (n div 10)) \<noteq> 1"
        using str_nat_not_Nil [of "n div 10 div 10"]
        by (subst str_nat.simps) (simp add: Suc_eq_plus1 [symmetric] del: Suc_eq_plus1)
      with ih show ?thesis by simp
    qed
    have "hd (str_nat n) = hd (str_nat (n div 10))"
      using \<open>\<not> n < 10\<close> str_nat_not_Nil [of "n div 10"]
      by (subst str_nat.simps) simp
    with hd0 show ?thesis by simp
  qed
qed

lemma is_decimal_numeral_str_nat: "is_decimal_numeral (str_nat n)"
  using no_leading_zero_str_nat [of n]
  by (simp add: is_decimal_numeral_def str_nat_not_Nil digits_str_nat)

lemma script_constructed:
  assumes "environ w ''POLYMARKET_TRADER_PRIVATE_KEY'' = Some pk" "pk \<noteq> []"
    and "environ w ''POLYMARKET_TRADER_ADDRESS'' = Some addr" "addr \<noteq> []"
    and "ClobClient_init w (ClobClient_kwargs (Some pk) (Some addr)) = None"
  shows "script w = create_section w (ClobClient_kwargs (Some pk) (Some addr))
                      [EvClobClient (ClobClient_kwargs (Some pk) (Some addr))]"
  using assms by (simp add: script_valid client_section_returns)

lemma script_created:
  assumes "environ w ''POLYMARKET_TRADER_PRIVATE_KEY'' = Some pk" "pk \<noteq> []"
    and "environ w ''POLYMARKET_TRADER_ADDRESS'' = Some addr" "addr \<noteq> []"
    and "ClobClient_init w (ClobClient_kwargs (Some pk) (Some addr)) = None"
    and "create_or_derive_api_creds w (ClobClient_kwargs (Some pk) (Some addr)) = Inr c"
  shows "script w = verify_section w (ClobClient_kwargs (Some pk) (Some addr)) c
           (EvClobClient (ClobClient_kwargs (Some pk) (Some addr)) #
            EvPrint msg_generating # EvCreateOrDerive # output_section c)"
  using assms by (simp add: script_constructed create_section_returns)

lemma stub_world_simps [simp]:
  "environ (stub_world env cr b l) = env"
  "ClobClient_init (stub_world env cr b l) a = None"
  "create_or_derive_api_creds (stub_world env cr b l) a = cr"
  "set_api_creds (stub_world env cr b l) a c = b"
  "get_api_keys (stub_world env cr b l) a c = l"
  by (simp_all add: stub_world_def)

lemma example_env_simps [simp]:
  "example_env ''POLYMARKET_TRADER_PRIVATE_KEY'' = Some ''0xabc''"
  "example_env ''POLYMARKET_TRADER_ADDRESS'' = Some ''0xdef''"
  by (simp_all add: example_env_def)

lemma printed_verify_section_credential_lines:
  "filter is_credential_line (printed (trace (verify_section w cl c t0))) =
   filter is_credential_line (printed t0)"
  by (simp add: verify_section_def Let_def printed_append
      split: option.splits sum.splits)

lemma str_nat_12: "str_nat 12 = ''12''"
  by code_simp

lemma decimal_12: "is_decimal_numeral ''12''" "decimal_value ''12'' = Some 12"
  by (simp_all add: is_decimal_numeral_def decimal_value_def is_digit_def)

lemma trace_create_section:
  "\<exists>rest. trace (create_section w cl t0) =
            t0 @ [EvPrint msg_generating, EvCreateOrDerive] @ rest
        \<and> filter is_construction rest = []"
  by (simp add: create_section_def verify_section_def output_section_def Let_def
      split: option.splits sum.splits)

lemma str_nat_2: "str_nat 2 = ''2''"
  by code_simp

lemma rule50_literal:
  "rule50 = ''==================================================''"
  unfolding rule50_def by code_simp

lemma end_to_end_stdout:
  "stdout_lines
     ([EvClobClient cl, EvPrint msg_generating, EvCreateOrDerive] @ output_section example_creds @
      [EvSetApiCreds example_creds, EvPrint msg_verifying, EvGetApiKeys,
       EvPrint (verified_line 2)]) = end_to_end_lines"
  unfolding stdout_lines_def stdout_text_def end_to_end_lines_def
  by (simp add: output_section_def key_line_def secret_line_def passphrase_line_def
      example_creds_def verified_line_def str_nat_2 rule50_literal msg_generating_def
      msg_created_def msg_verifying_def verified_prefix_def verified_suffix_def)


lemma named_vars_config_message: "named_vars config_message = required_vars"
  unfolding named_vars_def required_vars_def by code_simp

lemma missing_vars_address_missing_world:
  "missing_vars address_missing_world = [''POLYMARKET_TRADER_ADDRESS'']"
  by (simp add: missing_vars_def required_vars_def getenv_def address_missing_world_def)

subsection \<open>The claims of the specification\<close>

text \<open>
  Claim C1. Whenever \<open>POLYMARKET_TRADER_PRIVATE_KEY\<close> or \<open>POLYMARKET_TRADER_ADDRESS\<close>
  is absent or the empty string, the run ends in the uncaught \<open>ValueError\<close> of line 14
  (the error the specification calls ConfigurationError), with exit status 1, and its
  trace is empty: the client was not constructed and none of
  \<open>create_or_derive_api_creds\<close>, \<open>set_api_creds\<close>, \<open>get_api_keys\<close> was called.
\<close>

theorem missing_configuration_fails_fast:
  assumes "environ w ''POLYMARKET_TRADER_PRIVATE_KEY'' = None
         \<or> environ w ''POLYMARKET_TRADER_PRIVATE_KEY'' = Some []
         \<or> environ w ''POLYMARKET_TRADER_ADDRESS'' = None
         \<or> environ w ''POLYMARKET_TRADER_ADDRESS'' = Some []"
  shows "outcome (script w) = Uncaught (ValueError config_message)
       \<and> exit_status (outcome (script w)) = Some 1
       \<and> trace (script w) = []"
proof -
  from assms have "py_not (environ w ''POLYMARKET_TRADER_PRIVATE_KEY'')
                 \<or> py_not (environ w ''POLYMARKET_TRADER_ADDRESS'')"
    by auto
  then have "script w = \<lparr>trace = [], outcome = Uncaught (ValueError config_message)\<rparr>"
    by (rule script_missing)
  then show ?thesis by (simp add: ValueError_def)
qed

theorem missing_configuration_fails_fast_witness:
  "environ (stub_world [''POLYMARKET_TRADER_PRIVATE_KEY'' \<mapsto> ''0xabc''] (Inr example_creds) None (Inr [])) ''POLYMARKET_TRADER_ADDRESS'' = None
   \<and> outcome (script (stub_world [''POLYMARKET_TRADER_PRIVATE_KEY'' \<mapsto> ''0xabc''] (Inr example_creds) None (Inr []))) = Uncaught (ValueError config_message)
   \<and> trace (script (stub_world [''POLYMARKET_TRADER_PRIVATE_KEY'' \<mapsto> ''0xabc''] (Inr example_creds) None (Inr []))) = []"
  using missing_configuration_fails_fast
    [of "stub_world [''POLYMARKET_TRADER_PRIVATE_KEY'' \<mapsto> ''0xabc''] (Inr example_creds) None (Inr [])"]
  by simp

text \<open>
  Claim C2. Whenever the create-or-derive call returns credentials, the \<open>print\<close>
  calls of the whole run that write a credential line are exactly three, in the order
  key, secret, passphrase, and each writes its label followed by the field unchanged.
  This holds whatever happens afterwards (binding or verification may fail).
\<close>

theorem credentials_printed_once_in_order:
  assumes "environ w ''POLYMARKET_TRADER_PRIVATE_KEY'' = Some pk" "pk \<noteq> []"
    and "environ w ''POLYMARKET_TRADER_ADDRESS'' = Some addr" "addr \<noteq> []"
    and "ClobClient_init w (ClobClient_kwargs (Some pk) (Some addr)) = None"
    and "create_or_derive_api_creds w (ClobClient_kwargs (Some pk) (Some addr)) = Inr c"
  shows "filter is_credential_line (printed (trace (script w))) =
           [''API_KEY      = '' @ api_key c,
            ''API_SECRET   = '' @ api_secret c,
            ''API_PASSPHRASE = '' @ api_passphrase c]"
proof -
  have "filter is_credential_line (printed (trace (script w))) =
        filter is_credential_line (printed (output_section c))"
    using assms
    by (simp add: script_created printed_verify_section_credential_lines)
  then show ?thesis
    by (simp add: credential_lines_output_section key_line_def secret_line_def
        passphrase_line_def)
qed

theorem credentials_printed_once_in_order_witness:
  "filter is_credential_line
     (printed (trace (script (stub_world example_env (Inr example_creds) None (Inr [''a''])))))
   = [''API_KEY      = K1'', ''API_SECRET   = S1'', ''API_PASSPHRASE = P1'']"
  using credentials_printed_once_in_order
    [of "stub_world example_env (Inr example_creds) None (Inr [''a''])" "''0xabc''" "''0xdef''"
        example_creds]
  by (simp add: example_creds_def)

text \<open>
  Claim C3. In a run that reaches the verification step (credentials obtained and bound),
  if \<open>get_api_keys\<close> raises an error, that is an instance of \<open>Exception\<close>, the
  process ends normally with exit status 0, the last thing it does is print the warning
  made of the warning prefix and \<open>str(e)\<close>, and that is the only warning printed.
\<close>

theorem verification_failure_is_a_warning:
  assumes "environ w ''POLYMARKET_TRADER_PRIVATE_KEY'' = Some pk" "pk \<noteq> []"
    and "environ w ''POLYMARKET_TRADER_ADDRESS'' = Some addr" "addr \<noteq> []"
    and "ClobClient_init w (ClobClient_kwargs (Some pk) (Some addr)) = None"
    and "create_or_derive_api_creds w (ClobClient_kwargs (Some pk) (Some addr)) = Inr c"
    and "set_api_creds w (ClobClient_kwargs (Some pk) (Some addr)) c = None"
    and "get_api_keys w (ClobClient_kwargs (Some pk) (Some addr)) c = Inl e"
    and "isinstance_Exception e"
  shows "outcome (script w) = ExitOk
       \<and> exit_status (outcome (script w)) = Some 0
       \<and> last (trace (script w)) = EvPrint (warning_prefix @ exc_str e)
       \<and> filter is_warning_line (printed (trace (script w))) = [warning_prefix @ exc_str e]"
proof -
  have "script w =
     \<lparr>trace = (EvClobClient (ClobClient_kwargs (Some pk) (Some addr)) #
               EvPrint msg_generating # EvCreateOrDerive # output_section c) @
              [EvSetApiCreds c, EvPrint msg_verifying, EvGetApiKeys, EvPrint (warning_line e)],
      outcome = ExitOk\<rparr>"
    by (simp only: script_created [OF assms(1-6)] verify_section_caught [OF assms(7-9)])
  then show ?thesis
    using is_warning_line_warning [of e]
    by (simp add: printed_append printed_output_section warning_line_def)
qed

theorem verification_failure_is_a_warning_witness:
  "isinstance_Exception example_error
   \<and> outcome (script (stub_world example_env (Inr example_creds) None (Inl example_error))) = ExitOk
   \<and> exit_status (outcome (script (stub_world example_env (Inr example_creds) None (Inl example_error)))) = Some 0
   \<and> last (trace (script (stub_world example_env (Inr example_creds) None (Inl example_error))))
       = EvPrint (warning_prefix @ ''status_code=401'')"
  using verification_failure_is_a_warning
    [of "stub_world example_env (Inr example_creds) None (Inl example_error)" "''0xabc''" "''0xdef''"
        example_creds example_error]
  by (simp add: example_error_def)

text \<open>
  Claim C4. If the create-or-derive call raises, its exception is not caught: it reaches
  the top level and is the outcome of the run (with exit status 1 when it is an instance
  of \<open>Exception\<close>). The only output is the banner printed before the call, so no
  credential line is printed, and create-or-derive is the only client method called:
  neither \<open>set_api_creds\<close> nor \<open>get_api_keys\<close> is.
\<close>

theorem create_or_derive_failure_is_fatal:
  assumes "environ w ''POLYMARKET_TRADER_PRIVATE_KEY'' = Some pk" "pk \<noteq> []"
    and "environ w ''POLYMARKET_TRADER_ADDRESS'' = Some addr" "addr \<noteq> []"
    and "ClobClient_init w (ClobClient_kwargs (Some pk) (Some addr)) = None"
    and "create_or_derive_api_creds w (ClobClient_kwargs (Some pk) (Some addr)) = Inl e"
  shows "outcome (script w) = Uncaught e
       \<and> (isinstance_Exception e \<longrightarrow> exit_status (outcome (script w)) = Some 1)
       \<and> printed (trace (script w)) = [msg_generating]
       \<and> filter is_credential_line (printed (trace (script w))) = []
       \<and> filter is_client_call (trace (script w)) = [EvCreateOrDerive]"
proof -
  have "script w =
      \<lparr>trace = [EvClobClient (ClobClient_kwargs (Some pk) (Some addr)),
                EvPrint msg_generating, EvCreateOrDerive],
       outcome = Uncaught e\<rparr>"
    using assms by (simp add: script_constructed create_section_raises)
  then show ?thesis by simp
qed

theorem create_or_derive_failure_is_fatal_witness:
  "isinstance_Exception example_error
   \<and> outcome (script (stub_world example_env (Inl example_error) None (Inr []))) = Uncaught example_error
   \<and> exit_status (outcome (script (stub_world example_env (Inl example_error) None (Inr [])))) = Some 1
   \<and> printed (trace (script (stub_world example_env (Inl example_error) None (Inr [])))) = [msg_generating]
   \<and> filter is_client_call (trace (script (stub_world example_env (Inl example_error) None (Inr [])))) = [EvCreateOrDerive]"
proof -
  have e: "isinstance_Exception example_error"
    by (simp add: example_error_def)
  show ?thesis
    using e create_or_derive_failure_is_fatal
      [of "stub_world example_env (Inl example_error) None (Inr [])" "''0xabc''" "''0xdef''"
          example_error]
    by simp
qed

text \<open>
  Claim C5. If the verification call returns a list of \<open>N\<close> keys, the last line
  printed is the success line, and the text between its fixed prefix and suffix is the
  decimal numeral of \<open>N\<close>: digits only, no leading zero, of value exactly \<open>N\<close>. No
  warning is printed and the process ends normally.
\<close>

theorem verification_reports_key_count:
  assumes "environ w ''POLYMARKET_TRADER_PRIVATE_KEY'' = Some pk" "pk \<noteq> []"
    and "environ w ''POLYMARKET_TRADER_ADDRESS'' = Some addr" "addr \<noteq> []"
    and "ClobClient_init w (ClobClient_kwargs (Some pk) (Some addr)) = None"
    and "create_or_derive_api_creds w (ClobClient_kwargs (Some pk) (Some addr)) = Inr c"
    and "set_api_creds w (ClobClient_kwargs (Some pk) (Some addr)) c = None"
    and "get_api_keys w (ClobClient_kwargs (Some pk) (Some addr)) c = Inr ks"
  shows "\<exists>count. last (trace (script w)) =
                   EvPrint (verified_prefix @ count @ verified_suffix)
               \<and> count = str_nat (length ks)
               \<and> is_decimal_numeral count
               \<and> decimal_value count = Some (length ks)
               \<and> filter is_warning_line (printed (trace (script w))) = []
               \<and> outcome (script w) = ExitOk"
proof -
  have "script w =
     \<lparr>trace = (EvClobClient (ClobClient_kwargs (Some pk) (Some addr)) #
               EvPrint msg_generating # EvCreateOrDerive # output_section c) @
              [EvSetApiCreds c, EvPrint msg_verifying, EvGetApiKeys,
               EvPrint (verified_line (length ks))],
      outcome = ExitOk\<rparr>"
    by (simp only: script_created [OF assms(1-6)] verify_section_keys [OF assms(7,8)])
  then show ?thesis
    by (simp add: printed_append printed_output_section verified_line_def [symmetric]
        decimal_value_str_nat is_decimal_numeral_str_nat)
qed

theorem verification_reports_key_count_witness:
  "last (trace (script (stub_world example_env (Inr example_creds) None
                          (Inr (replicate 12 ''key'')))))
     = EvPrint (verified_prefix @ ''12'' @ verified_suffix)
   \<and> is_decimal_numeral ''12''
   \<and> decimal_value ''12'' = Some 12
   \<and> outcome (script (stub_world example_env (Inr example_creds) None
                          (Inr (replicate 12 ''key'')))) = ExitOk"
  using verification_reports_key_count
    [of "stub_world example_env (Inr example_creds) None (Inr (replicate 12 ''key''))"
        "''0xabc''" "''0xdef''" example_creds "replicate 12 ''key''"]
  by (simp add: str_nat_12 decimal_12)

text \<open>
  Claim C6. With both variables set and non-empty, the client is constructed with host
  \<open>https://clob.polymarket.com\<close>, chain id 137, signature type 0, the private key as
  \<open>key\<close> and the wallet address as \<open>funder\<close>. The construction contributes that one
  event to the run and no client call, so it performs no network I/O (this is how the
  library's constructor is modelled, from the words of the specification). It is the
  first event of the run and the only construction. If the constructor raises, the run
  ends there without any client call; if it returns, the first client call of the run
  is create-or-derive, after the banner of line 26.
\<close>

theorem client_constructed_with_fixed_constants:
  assumes "environ w ''POLYMARKET_TRADER_PRIVATE_KEY'' = Some pk" "pk \<noteq> []"
    and "environ w ''POLYMARKET_TRADER_ADDRESS'' = Some addr" "addr \<noteq> []"
  shows "ClobClient_kwargs (Some pk) (Some addr) =
           \<lparr>host = ''https://clob.polymarket.com'', chain_id = 137,
            key = Some pk, signature_type = 0, funder = Some addr\<rparr>
       \<and> fst (ClobClient w (ClobClient_kwargs (Some pk) (Some addr))) =
           [EvClobClient (ClobClient_kwargs (Some pk) (Some addr))]
       \<and> filter is_client_call (fst (ClobClient w (ClobClient_kwargs (Some pk) (Some addr)))) = []
       \<and> (\<exists>rest. trace (script w) =
                   fst (ClobClient w (ClobClient_kwargs (Some pk) (Some addr))) @ rest
                \<and> filter is_construction rest = []
                \<and> (snd (ClobClient w (ClobClient_kwargs (Some pk) (Some addr))) = None
                     \<longrightarrow> take 2 rest = [EvPrint msg_generating, EvCreateOrDerive])
                \<and> (snd (ClobClient w (ClobClient_kwargs (Some pk) (Some addr))) \<noteq> None
                     \<longrightarrow> rest = []))"
proof (cases "ClobClient_init w (ClobClient_kwargs (Some pk) (Some addr))")
  case None
  from trace_create_section
  obtain rest where
    "trace (create_section w (ClobClient_kwargs (Some pk) (Some addr))
       [EvClobClient (ClobClient_kwargs (Some pk) (Some addr))]) =
     [EvClobClient (ClobClient_kwargs (Some pk) (Some addr))] @
     [EvPrint msg_generating, EvCreateOrDerive] @ rest"
    "filter is_construction rest = []"
    by blast
  then show ?thesis
    using None
    by (simp add: script_constructed [OF assms None] ClobClient_def)
      (simp add: ClobClient_kwargs_def)
next
  case (Some e)
  then show ?thesis
    by (simp add: script_valid [OF assms] client_section_raises ClobClient_def)
      (simp add: ClobClient_kwargs_def)
qed

theorem client_constructed_with_fixed_constants_witness:
  "fst (ClobClient (stub_world example_env (Inr example_creds) None (Inr [''a'']))
          (ClobClient_kwargs (Some ''0xabc'') (Some ''0xdef''))) =
     [EvClobClient \<lparr>host = ''https://clob.polymarket.com'', chain_id = 137,
                    key = Some ''0xabc'', signature_type = 0, funder = Some ''0xdef''\<rparr>]
   \<and> (\<exists>rest. trace (script (stub_world example_env (Inr example_creds) None (Inr [''a'']))) =
          EvClobClient \<lparr>host = ''https://clob.polymarket.com'', chain_id = 137,
                        key = Some ''0xabc'', signature_type = 0, funder = Some ''0xdef''\<rparr>
          # rest
        \<and> filter is_construction rest = []
        \<and> take 2 rest = [EvPrint msg_generating, EvCreateOrDerive])"
  using client_constructed_with_fixed_constants
    [of "stub_world example_env (Inr example_creds) None (Inr [''a''])" "''0xabc''" "''0xdef''"]
  by (simp add: ClobClient_def ClobClient_kwargs_def)

text \<open>
  Claim C7. The end-to-end scenario: both variables set, credentials \<open>K1\<close>, \<open>S1\<close>,
  \<open>P1\<close> returned, then a list of two keys. The lines of standard output contain
  \<open>API_KEY      = K1\<close>, \<open>API_SECRET   = S1\<close>, \<open>API_PASSPHRASE = P1\<close> and the
  success line with the count \<open>2\<close>, and the process ends normally.
\<close>

theorem end_to_end_scenario:
  assumes "environ w ''POLYMARKET_TRADER_PRIVATE_KEY'' = Some pk" "pk \<noteq> []"
    and "environ w ''POLYMARKET_TRADER_ADDRESS'' = Some addr" "addr \<noteq> []"
    and "ClobClient_init w (ClobClient_kwargs (Some pk) (Some addr)) = None"
    and "create_or_derive_api_creds w (ClobClient_kwargs (Some pk) (Some addr)) =
           Inr \<lparr>api_key = ''K1'', api_secret = ''S1'', api_passphrase = ''P1''\<rparr>"
    and "set_api_creds w (ClobClient_kwargs (Some pk) (Some addr))
           \<lparr>api_key = ''K1'', api_secret = ''S1'', api_passphrase = ''P1''\<rparr> = None"
    and "get_api_keys w (ClobClient_kwargs (Some pk) (Some addr))
           \<lparr>api_key = ''K1'', api_secret = ''S1'', api_passphrase = ''P1''\<rparr> = Inr ks"
    and "length ks = 2"
  shows "''API_KEY      = K1'' \<in> set (stdout_lines (trace (script w)))
       \<and> ''API_SECRET   = S1'' \<in> set (stdout_lines (trace (script w)))
       \<and> ''API_PASSPHRASE = P1'' \<in> set (stdout_lines (trace (script w)))
       \<and> verified_prefix @ ''2'' @ verified_suffix \<in> set (stdout_lines (trace (script w)))
       \<and> outcome (script w) = ExitOk"
proof -
  let ?cl = "ClobClient_kwargs (Some pk) (Some addr)"
  have c: "create_or_derive_api_creds w ?cl = Inr example_creds"
    and s: "set_api_creds w ?cl example_creds = None"
    and g: "get_api_keys w ?cl example_creds = Inr ks"
    using assms(6-8) by (simp_all add: example_creds_def)
  have "script w =
     \<lparr>trace = (EvClobClient ?cl # EvPrint msg_generating # EvCreateOrDerive #
               output_section example_creds) @
              [EvSetApiCreds example_creds, EvPrint msg_verifying, EvGetApiKeys,
               EvPrint (verified_line (length ks))],
      outcome = ExitOk\<rparr>"
    by (simp only: script_created [OF assms(1-5) c] verify_section_keys [OF s g])
  then have "stdout_lines (trace (script w)) = end_to_end_lines" "outcome (script w) = ExitOk"
    using end_to_end_stdout [of ?cl] by (simp_all add: assms(9))
  then show ?thesis
    by (simp add: end_to_end_lines_def)
qed

theorem end_to_end_scenario_witness:
  "length [''key-1'', ''key-2''] = 2
   \<and> ''API_KEY      = K1'' \<in> set (stdout_lines (trace (script (stub_world example_env (Inr example_creds) None (Inr [''key-1'', ''key-2''])))))
   \<and> ''API_SECRET   = S1'' \<in> set (stdout_lines (trace (script (stub_world example_env (Inr example_creds) None (Inr [''key-1'', ''key-2''])))))
   \<and> ''API_PASSPHRASE = P1'' \<in> set (stdout_lines (trace (script (stub_world example_env (Inr example_creds) None (Inr [''key-1'', ''key-2''])))))
   \<and> verified_prefix @ ''2'' @ verified_suffix \<in> set (stdout_lines (trace (script (stub_world example_env (Inr example_creds) None (Inr [''key-1'', ''key-2''])))))
   \<and> outcome (script (stub_world example_env (Inr example_creds) None (Inr [''key-1'', ''key-2'']))) = ExitOk"
  using end_to_end_scenario
    [of "stub_world example_env (Inr example_creds) None (Inr [''key-1'', ''key-2''])"
        "''0xabc''" "''0xdef''" "[''key-1'', ''key-2'']"]
  by (simp add: example_creds_def)

text \<open>
  Claim C8 says that the message of the error names exactly the variables that are
  missing. The script has one fixed message. With the private key set and only the
  wallet address missing, the message names both variables, so the variables named are
  not the variables missing.
\<close>

theorem message_names_exactly_missing_counterexample:
  "outcome (script address_missing_world) = Uncaught (ValueError config_message)
   \<and> missing_vars address_missing_world = [''POLYMARKET_TRADER_ADDRESS'']
   \<and> named_vars (exc_str (ValueError config_message)) =
       [''POLYMARKET_TRADER_PRIVATE_KEY'', ''POLYMARKET_TRADER_ADDRESS'']
   \<and> named_vars (exc_str (ValueError config_message)) \<noteq> missing_vars address_missing_world"
proof -
  have "py_not (environ address_missing_world ''POLYMARKET_TRADER_PRIVATE_KEY'')
      \<or> py_not (environ address_missing_world ''POLYMARKET_TRADER_ADDRESS'')"
    by (simp add: address_missing_world_def)
  then have "outcome (script address_missing_world) = Uncaught (ValueError config_message)"
    by (simp add: script_missing)
  then show ?thesis
    by (simp add: missing_vars_address_missing_world ValueError_def named_vars_config_message
        required_vars_def)
qed

text \<open>
  Claim C8, amended. Whenever a required variable is missing, the error is the
  \<open>ValueError\<close> with the fixed message, and that message names both required
  variables, whichever of them is missing.
\<close>

theorem message_names_both_variables:
  assumes "missing_vars w \<noteq> []"
  shows "outcome (script w) = Uncaught (PyException ''ValueError'' config_message True)
       \<and> named_vars config_message =
           [''POLYMARKET_TRADER_PRIVATE_KEY'', ''POLYMARKET_TRADER_ADDRESS'']"
proof -
  from assms have "py_not (environ w ''POLYMARKET_TRADER_PRIVATE_KEY'')
                 \<or> py_not (environ w ''POLYMARKET_TRADER_ADDRESS'')"
    by (auto simp add: missing_vars_def required_vars_def getenv_def split: if_splits)
  then have "outcome (script w) = Uncaught (ValueError config_message)"
    by (simp add: script_missing)
  then show ?thesis
    by (simp add: ValueError_def named_vars_config_message required_vars_def)
qed

theorem message_names_both_variables_witness:
  "missing_vars address_missing_world \<noteq> []
   \<and> outcome (script address_missing_world) =
       Uncaught (PyException ''ValueError'' config_message True)
   \<and> named_vars config_message =
       [''POLYMARKET_TRADER_PRIVATE_KEY'', ''POLYMARKET_TRADER_ADDRESS'']"
  using message_names_both_variables [of address_missing_world]
  by (simp add: missing_vars_address_missing_world)



text \<open>
  Claim C10 says that every value other than \<open>None\<close> and the empty string passes the
  validation and that the script then constructs the client and contacts the remote
  API with it. The first half holds; the second does not when the constructor refuses
  the value: with whitespace-only values and a constructor that raises, the validation
  passes, the constructor is called with the whitespace key, and the run ends with the
  constructor's exception without any client call.
\<close>

theorem whitespace_reaches_remote_api_counterexample:
  "environ whitespace_refused_world ''POLYMARKET_TRADER_PRIVATE_KEY'' = Some ''   ''
   \<and> environ whitespace_refused_world ''POLYMARKET_TRADER_ADDRESS'' = Some '' ''
   \<and> trace (script whitespace_refused_world) =
       [EvClobClient (ClobClient_kwargs (Some ''   '') (Some '' ''))]
   \<and> filter is_client_call (trace (script whitespace_refused_world)) = []
   \<and> outcome (script whitespace_refused_world) = Uncaught invalid_key_error"
proof -
  have env: "environ whitespace_refused_world ''POLYMARKET_TRADER_PRIVATE_KEY'' = Some ''   ''"
    "environ whitespace_refused_world ''POLYMARKET_TRADER_ADDRESS'' = Some '' ''"
    by (simp_all add: whitespace_refused_world_def whitespace_env_def)
  have init: "ClobClient_init whitespace_refused_world
                (ClobClient_kwargs (Some ''   '') (Some '' '')) = Some invalid_key_error"
    by (simp add: whitespace_refused_world_def)
  have "script whitespace_refused_world =
          \<lparr>trace = [EvClobClient (ClobClient_kwargs (Some ''   '') (Some '' ''))],
           outcome = Uncaught invalid_key_error\<rparr>"
    using script_valid [OF env(1) _ env(2)] client_section_raises [OF init] by simp
  then show ?thesis using env by simp
qed

text \<open>
  Claim C10, amended. The run is rejected by the validation (empty trace, the
  \<open>ValueError\<close> of line 14) exactly when one of the two variables is \<open>None\<close> or the
  empty string. Any other pair of values, whitespace included, is passed to the
  constructor as it is; when the constructor returns the script goes on to call
  create-or-derive, and when it raises the run ends with its exception.
\<close>

theorem validation_rejects_only_none_and_empty:
  "(script w = \<lparr>trace = [], outcome = Uncaught (ValueError config_message)\<rparr>
    \<longleftrightarrow> environ w ''POLYMARKET_TRADER_PRIVATE_KEY'' \<in> {None, Some []}
       \<or> environ w ''POLYMARKET_TRADER_ADDRESS'' \<in> {None, Some []})
   \<and> (environ w ''POLYMARKET_TRADER_PRIVATE_KEY'' \<notin> {None, Some []}
       \<and> environ w ''POLYMARKET_TRADER_ADDRESS'' \<notin> {None, Some []}
      \<longrightarrow> hd (trace (script w)) =
            EvClobClient (ClobClient_kwargs (environ w ''POLYMARKET_TRADER_PRIVATE_KEY'')
                                            (environ w ''POLYMARKET_TRADER_ADDRESS''))
        \<and> (ClobClient_init w (ClobClient_kwargs (environ w ''POLYMARKET_TRADER_PRIVATE_KEY'')
                                                (environ w ''POLYMARKET_TRADER_ADDRESS'')) = None
           \<longrightarrow> take 3 (trace (script w)) =
                 [EvClobClient (ClobClient_kwargs (environ w ''POLYMARKET_TRADER_PRIVATE_KEY'')
                                                  (environ w ''POLYMARKET_TRADER_ADDRESS'')),
                  EvPrint msg_generating, EvCreateOrDerive])
        \<and> (\<forall>e. ClobClient_init w (ClobClient_kwargs (environ w ''POLYMARKET_TRADER_PRIVATE_KEY'')
                                                (environ w ''POLYMARKET_TRADER_ADDRESS'')) = Some e
           \<longrightarrow> script w =
                 \<lparr>trace = [EvClobClient (ClobClient_kwargs
                              (environ w ''POLYMARKET_TRADER_PRIVATE_KEY'')
                              (environ w ''POLYMARKET_TRADER_ADDRESS''))],
                  outcome = Uncaught e\<rparr>))"
proof (cases "py_not (environ w ''POLYMARKET_TRADER_PRIVATE_KEY'')
            \<or> py_not (environ w ''POLYMARKET_TRADER_ADDRESS'')")
  case True
  have "environ w ''POLYMARKET_TRADER_PRIVATE_KEY'' \<in> {None, Some []}
       \<or> environ w ''POLYMARKET_TRADER_ADDRESS'' \<in> {None, Some []}"
    using True by (auto elim: py_not.elims)
  then show ?thesis
    by (auto simp add: script_missing [OF True])
next
  case False
  then obtain pk addr where v:
    "environ w ''POLYMARKET_TRADER_PRIVATE_KEY'' = Some pk" "pk \<noteq> []"
    "environ w ''POLYMARKET_TRADER_ADDRESS'' = Some addr" "addr \<noteq> []"
    by (auto elim: py_not.elims) (metis py_not.elims(3))
  show ?thesis
  proof (cases "ClobClient_init w (ClobClient_kwargs (Some pk) (Some addr))")
    case None
    show ?thesis
      using v None
      by (simp add: script_constructed [OF v None]
          create_section_def verify_section_def output_section_def Let_def
          split: option.splits sum.splits)
  next
    case (Some e)
    then show ?thesis
      using v by (simp add: script_valid [OF v] client_section_raises)
  qed
qed

theorem validation_rejects_only_none_and_empty_witness:
  "environ (stub_world whitespace_env (Inr example_creds) None (Inr [])) ''POLYMARKET_TRADER_PRIVATE_KEY'' = Some ''   ''
   \<and> script (stub_world whitespace_env (Inr example_creds) None (Inr [])) \<noteq>
       \<lparr>trace = [], outcome = Uncaught (ValueError config_message)\<rparr>
   \<and> take 3 (trace (script (stub_world whitespace_env (Inr example_creds) None (Inr [])))) =
      [EvClobClient (ClobClient_kwargs (Some ''   '') (Some '' '')), EvPrint msg_generating,
       EvCreateOrDerive]"
  using validation_rejects_only_none_and_empty
    [of "stub_world whitespace_env (Inr example_creds) None (Inr [])"]
  by (simp add: whitespace_env_def)

end
